theory Spec2Isabelle
  imports Main "HOL-Library.AList"
begin

section \<open>Data model (src/main.py, lines 14-35)\<close>

text \<open>
  The three model classes of the source. \<open>TaskBase\<close> carries \<open>title\<close> and \<open>done\<close>;
  \<open>Task\<close> (the table model) adds \<open>id: int | None\<close>; \<open>TaskRead\<close> (the response model)
  adds \<open>id: int\<close>. The field \<open>id\<close> is written \<open>id'\<close> because \<open>id\<close> is the identity
  function of HOL; it is always used qualified (\<open>Task.id'\<close>, \<open>TaskRead.id'\<close>).
  Python's \<open>str\<close> is a sequence of code points and \<open>int\<close> is unbounded.
\<close>

record TaskBase =
  title :: string
  "done" :: bool

record Task = TaskBase +
  id' :: "int option"

record TaskRead = TaskBase +
  id' :: int

text \<open>
  The declared constraint on \<open>title\<close> (line 20):
  \<open>constr(min_length=1, max_length=100)\<close>.
\<close>

definition title_constraint :: "string \<Rightarrow> bool" where
  "title_constraint t \<longleftrightarrow> 1 \<le> length t \<and> length t \<le> 100"

section \<open>Storage\<close>

text \<open>
  The table \<open>task\<close> of the SQLite database (line 10), created empty at startup
  (line 45). A row is its primary key together with the two other columns; the list keeps
  the rows in the order they were inserted; the source asks the storage for no order.
  \<open>stored tab key\<close> is the row the table holds under a key, and
  \<open>select(Task).where(Task.title == t)).first()\<close> the first row whose title equals \<open>t\<close>.

  Python's integers are unbounded, the integers of the storage are signed 64-bit ones:
  \<open>sqlite_integer\<close> is the range an integer must be in to be handed to the storage.
\<close>

type_synonym table = "(int \<times> TaskBase) list"

definition stored :: "table \<Rightarrow> int \<Rightarrow> TaskBase option" where
  "stored tab key = map_of tab key"

definition sqlite_integer :: "int \<Rightarrow> bool" where
  "sqlite_integer i \<longleftrightarrow> - (2 ^ 63) \<le> i \<and> i < 2 ^ 63"

definition select_title_first :: "string \<Rightarrow> table \<Rightarrow> (int \<times> TaskBase) option" where
  "select_title_first t tab = find (\<lambda>row. title (snd row) = t) tab"

text \<open>
  The primary key is declared \<open>Field(default=None, primary_key=True)\<close> on an integer
  column (line 28), which SQLite treats as its rowid: a row inserted without a key
  receives one more than the largest key in the table, and 1 when the table is empty.
  No counter of past keys is kept. (When the largest key is the largest integer of the
  storage, SQLite picks an unused key at random instead; such a table exists only after a
  client has supplied that key, and \<open>new_rowid\<close> keeps the sum there.)
\<close>

definition new_rowid :: "table \<Rightarrow> int" where
  "new_rowid tab = (if tab = [] then 1 else Max (set (map fst tab)) + 1)"

text \<open>
  Failures. \<open>HTTPException\<close> carries the status code and the detail given at the
  \<open>raise\<close>. \<open>IntegrityError\<close> is the storage error of an insert whose primary key is
  already taken, \<open>OverflowError\<close> the error of handing the storage an integer outside
  its range; no handler catches either (the response is then a 500).
\<close>

datatype error = HTTPException int string | IntegrityError | OverflowError

fun status_code :: "error \<Rightarrow> int" where
  "status_code (HTTPException code detail) = code"
| "status_code IntegrityError = 500"
| "status_code OverflowError = 500"

text \<open>
  \<open>session.get(Task, task_id)\<close> (lines 108, 127, 142 and 161) queries the storage by
  primary key: it raises when \<open>task_id\<close> is outside the range of the storage, and
  returns the row under that key or \<open>None\<close> otherwise.
\<close>

definition session_get :: "table \<Rightarrow> int \<Rightarrow> error + TaskBase option" where
  "session_get tab task_id =
     (if sqlite_integer task_id then Inr (stored tab task_id) else Inl OverflowError)"

definition detail_duplicate :: string where
  "detail_duplicate = ''Ya existe una tarea con ese t'' @ [CHR 0xED] @ ''tulo''"

definition detail_not_found :: string where
  "detail_not_found = ''Tarea no encontrada''"

definition row_of :: "'a TaskBase_scheme \<Rightarrow> TaskBase" where
  "row_of t = \<lparr>title = title t, done = done t\<rparr>"

definition as_read :: "int \<Rightarrow> TaskBase \<Rightarrow> TaskRead" where
  "as_read i r = \<lparr>title = title r, done = done r, TaskRead.id' = i\<rparr>"

section \<open>Operations (src/main.py, lines 73-171)\<close>

text \<open>
  Every operation takes the table and returns its response together with the table after
  the request; a raised exception is the \<open>Inl\<close> branch, and the table returned with it is
  what the storage holds after the session is closed.

  \<open>create_task\<close> (lines 73-87). The body is a \<open>Task\<close>, so it may carry an \<open>id\<close>. The
  title check comes first; then the row is inserted, under the key of the body when it has
  one (the insert fails when that key is outside the range of the storage or is taken)
  and under a new rowid otherwise.
\<close>

definition create_task :: "Task \<Rightarrow> table \<Rightarrow> (error + Task) \<times> table" where
  "create_task task tab =
     (case select_title_first (title task) tab of
        Some existing_task \<Rightarrow> (Inl (HTTPException 400 detail_duplicate), tab)
      | None \<Rightarrow>
          (case Task.id' task of
             None \<Rightarrow>
               (let i = new_rowid tab
                in (Inr (task\<lparr>Task.id' := Some i\<rparr>), tab @ [(i, row_of task)]))
           | Some i \<Rightarrow>
               (if \<not> sqlite_integer i then (Inl OverflowError, tab)
                else if i \<in> set (map fst tab) then (Inl IntegrityError, tab)
                else (Inr task, tab @ [(i, row_of task)]))))"

text \<open>\<open>read_tasks\<close> (lines 92-98): every row, serialised through \<open>TaskRead\<close>.\<close>

definition read_tasks :: "table \<Rightarrow> TaskRead list" where
  "read_tasks tab = map (\<lambda>row. as_read (fst row) (snd row)) tab"

text \<open>
  \<open>update_task\<close> (lines 102-117): the error of \<open>session.get\<close> when it raises, 404
  when the key is absent; otherwise both columns are assigned from the body and the row is
  written back. The other three operations on an id start the same way.
\<close>

definition update_task :: "int \<Rightarrow> TaskBase \<Rightarrow> table \<Rightarrow> (error + TaskRead) \<times> table" where
  "update_task task_id updated_task tab =
     (case session_get tab task_id of
        Inl e \<Rightarrow> (Inl e, tab)
      | Inr None \<Rightarrow> (Inl (HTTPException 404 detail_not_found), tab)
      | Inr (Some task) \<Rightarrow>
          (let task' = task\<lparr>title := title updated_task, done := done updated_task\<rparr>
           in (Inr (as_read task_id task'), AList.update task_id task' tab)))"

text \<open>
  \<open>delete_task\<close> (lines 121-133). The response is the dictionary
  \<open>{"mensaje": f"Tarea con id {task_id} eliminada"}\<close>; \<open>str_int\<close> is the decimal
  text Python's formatting gives an integer.
\<close>

fun digits :: "nat \<Rightarrow> string" where
  "digits n =
     (if n < 10 then [char_of (48 + n)]
      else digits (n div 10) @ [char_of (48 + n mod 10)])"

declare digits.simps [simp del]

definition str_int :: "int \<Rightarrow> string" where
  "str_int i = (if i < 0 then CHR ''-'' # digits (nat (- i)) else digits (nat i))"

definition delete_task :: "int \<Rightarrow> table \<Rightarrow> (error + (string \<times> string) list) \<times> table" where
  "delete_task task_id tab =
     (case session_get tab task_id of
        Inl e \<Rightarrow> (Inl e, tab)
      | Inr None \<Rightarrow> (Inl (HTTPException 404 detail_not_found), tab)
      | Inr (Some task) \<Rightarrow>
          (Inr [(''mensaje'', ''Tarea con id '' @ str_int task_id @ '' eliminada'')],
           AList.delete task_id tab))"

text \<open>\<open>mark_task_done\<close> (lines 136-150).\<close>

definition mark_task_done :: "int \<Rightarrow> table \<Rightarrow> (error + TaskRead) \<times> table" where
  "mark_task_done task_id tab =
     (case session_get tab task_id of
        Inl e \<Rightarrow> (Inl e, tab)
      | Inr None \<Rightarrow> (Inl (HTTPException 404 detail_not_found), tab)
      | Inr (Some task) \<Rightarrow>
          (let task' = task\<lparr>done := True\<rparr>
           in (Inr (as_read task_id task'), AList.update task_id task' tab)))"

text \<open>\<open>toggle_task\<close> (lines 153-171).\<close>

definition toggle_task :: "int \<Rightarrow> table \<Rightarrow> (error + TaskRead) \<times> table" where
  "toggle_task task_id tab =
     (case session_get tab task_id of
        Inl e \<Rightarrow> (Inl e, tab)
      | Inr None \<Rightarrow> (Inl (HTTPException 404 detail_not_found), tab)
      | Inr (Some task) \<Rightarrow>
          (let task' = task\<lparr>done := \<not> done task\<rparr>
           in (Inr (as_read task_id task'), AList.update task_id task' tab)))"

section \<open>Requests in sequence\<close>

text \<open>
  The routes of the task API (the decorators at lines 73, 92, 102, 121, 136 and 153), one
  request served after the other on the same table, starting from any table; the
  application starts on the empty one.
\<close>

datatype request =
    POST_tasks Task
  | GET_tasks
  | PUT_task int TaskBase
  | DELETE_task int
  | PATCH_done int
  | PATCH_toggle int

datatype response =
    Created Task
  | Listing "TaskRead list"
  | Updated TaskRead
  | Removed "(string \<times> string) list"
  | Failure error

definition respond :: "('a \<Rightarrow> response) \<Rightarrow> (error + 'a) \<times> table \<Rightarrow> response \<times> table" where
  "respond ok out = (case fst out of Inl e \<Rightarrow> Failure e | Inr a \<Rightarrow> ok a, snd out)"

fun handle :: "request \<Rightarrow> table \<Rightarrow> response \<times> table" where
  "handle (POST_tasks task) tab = respond Created (create_task task tab)"
| "handle GET_tasks tab = (Listing (read_tasks tab), tab)"
| "handle (PUT_task task_id updated_task) tab = respond Updated (update_task task_id updated_task tab)"
| "handle (DELETE_task task_id) tab = respond Removed (delete_task task_id tab)"
| "handle (PATCH_done task_id) tab = respond Updated (mark_task_done task_id tab)"
| "handle (PATCH_toggle task_id) tab = respond Updated (toggle_task task_id tab)"

fun run :: "request list \<Rightarrow> table \<Rightarrow> table" where
  "run [] tab = tab"
| "run (rq # rqs) tab = run rqs (snd (handle rq tab))"




section \<open>Helper lemmas\<close>

lemma select_title_first_None:
  "select_title_first t tab = None \<longleftrightarrow> (\<forall>row \<in> set tab. title (snd row) \<noteq> t)"
  by (simp add: select_title_first_def find_None_iff Ball_def)

lemma new_rowid_fresh: "new_rowid tab \<notin> set (map fst tab)"
proof (cases "tab = []")
  case True
  then show ?thesis by simp
next
  case False
  have "\<forall>k \<in> set (map fst tab). k < new_rowid tab"
  proof
    fix k assume "k \<in> set (map fst tab)"
    then have "k \<le> Max (set (map fst tab))" by (intro Max_ge) auto
    with False show "k < new_rowid tab" by (simp add: new_rowid_def)
  qed
  then show ?thesis by blast
qed

section \<open>Claims\<close>

subsection \<open>C1: creating with a title that is already present\<close>

text \<open>
  C1, as amended. Whenever some row of the table has the title of the body,
  \<open>create_task\<close> raises the HTTP exception with status 400 and leaves the table as it
  was. The detail of the exception is the Spanish sentence of line 82,
  "Ya existe una tarea con ese titulo" (with an acute accent on the first i of the last
  word), not an English one.
\<close>

theorem create_task_duplicate_title:
  assumes "\<exists>row \<in> set tab. title (snd row) = title task"
  shows "create_task task tab = (Inl (HTTPException 400 detail_duplicate), tab)
         \<and> status_code (HTTPException 400 detail_duplicate) = 400"
proof -
  from assms have "select_title_first (title task) tab \<noteq> None"
    by (simp add: select_title_first_None)
  then obtain row where "select_title_first (title task) tab = Some row"
    by blast
  then show ?thesis
    by (simp add: create_task_def)
qed

theorem create_task_duplicate_title_witness:
  "create_task \<lparr>title = ''Buy milk'', done = False, Task.id' = None\<rparr>
       [(1, \<lparr>title = ''Buy milk'', done = True\<rparr>)]
     = (Inl (HTTPException 400 detail_duplicate), [(1, \<lparr>title = ''Buy milk'', done = True\<rparr>)])
   \<and> status_code (HTTPException 400 detail_duplicate) = 400"
  using create_task_duplicate_title
    [of "[(1, \<lparr>title = ''Buy milk'', done = True\<rparr>)]"
        "\<lparr>title = ''Buy milk'', done = False, Task.id' = None\<rparr>"]
  by simp

text \<open>
  C1 as stated fails on the message: with "Buy milk" stored under id 1, creating
  "Buy milk" again does not answer with the detail
  "a task with that title already exists".
\<close>

theorem create_task_message_counterexample:
  "create_task \<lparr>title = ''Buy milk'', done = False, Task.id' = None\<rparr>
       [(1, \<lparr>title = ''Buy milk'', done = False\<rparr>)]
     \<noteq> (Inl (HTTPException 400 ''a task with that title already exists''),
        [(1, \<lparr>title = ''Buy milk'', done = False\<rparr>)])"
  by (simp add: create_task_def select_title_first_def detail_duplicate_def)

subsection \<open>C2: creating with a title that is not present\<close>




subsection \<open>Shared facts about the operations (C3 to C10)\<close>

lemma stored_None_iff: "stored tab task_id = None \<longleftrightarrow> task_id \<notin> set (map fst tab)"
  by (simp add: stored_def session_get_def sqlite_integer_def map_of_eq_None_iff)

lemma read_tasks_ids: "map TaskRead.id' (read_tasks tab) = map fst tab"
  by (simp add: read_tasks_def as_read_def)

lemma stored_update:
  "stored (AList.update k v tab) j = (if j = k then Some v else stored tab j)"
  by (simp add: stored_def session_get_def sqlite_integer_def update_conv')

lemma stored_delete:
  "stored (AList.delete k tab) j = (if j = k then None else stored tab j)"
  by (simp add: stored_def session_get_def sqlite_integer_def delete_conv')

lemma keys_update_present:
  "stored tab k = Some r \<Longrightarrow> map fst (AList.update k v tab) = map fst tab"
proof -
  assume "stored tab k = Some r"
  then have "k \<in> set (map fst tab)"
    using stored_None_iff [of tab k] by auto
  then show ?thesis by (simp add: update_keys)
qed

lemma replace_both_fields:
  "(task :: TaskBase)\<lparr>title := title p, done := done p\<rparr> = (p :: TaskBase)"
  by (rule TaskBase.equality) simp_all

lemma session_get_overflow:
  "\<not> sqlite_integer task_id \<Longrightarrow> session_get tab task_id = Inl OverflowError"
  by (simp add: session_get_def)

lemma session_get_in_range:
  "sqlite_integer task_id \<Longrightarrow> session_get tab task_id = Inr (stored tab task_id)"
  by (simp add: session_get_def)

lemma session_get_Inr_iff:
  "session_get tab task_id = Inr found \<longleftrightarrow> sqlite_integer task_id \<and> stored tab task_id = found"
  by (simp add: session_get_def)

lemma update_task_overflow:
  "\<not> sqlite_integer task_id \<Longrightarrow> update_task task_id p tab = (Inl OverflowError, tab)"
  by (simp add: update_task_def session_get_overflow)

lemma update_task_absent:
  "sqlite_integer task_id \<Longrightarrow> stored tab task_id = None \<Longrightarrow>
     update_task task_id p tab = (Inl (HTTPException 404 detail_not_found), tab)"
  by (simp add: update_task_def session_get_in_range)

lemma update_task_present:
  "sqlite_integer task_id \<Longrightarrow> stored tab task_id = Some task \<Longrightarrow>
     update_task task_id p tab = (Inr (as_read task_id p), AList.update task_id p tab)"
  by (simp add: update_task_def session_get_in_range Let_def replace_both_fields)

lemma delete_task_overflow:
  "\<not> sqlite_integer task_id \<Longrightarrow> delete_task task_id tab = (Inl OverflowError, tab)"
  by (simp add: delete_task_def session_get_overflow)

lemma delete_task_absent:
  "sqlite_integer task_id \<Longrightarrow> stored tab task_id = None \<Longrightarrow>
     delete_task task_id tab = (Inl (HTTPException 404 detail_not_found), tab)"
  by (simp add: delete_task_def session_get_in_range)

lemma delete_task_present:
  "sqlite_integer task_id \<Longrightarrow> stored tab task_id = Some task \<Longrightarrow>
     delete_task task_id tab
       = (Inr [(''mensaje'', ''Tarea con id '' @ str_int task_id @ '' eliminada'')],
          AList.delete task_id tab)"
  by (simp add: delete_task_def session_get_in_range)

lemma mark_task_done_overflow:
  "\<not> sqlite_integer task_id \<Longrightarrow> mark_task_done task_id tab = (Inl OverflowError, tab)"
  by (simp add: mark_task_done_def session_get_overflow)

lemma mark_task_done_absent:
  "sqlite_integer task_id \<Longrightarrow> stored tab task_id = None \<Longrightarrow>
     mark_task_done task_id tab = (Inl (HTTPException 404 detail_not_found), tab)"
  by (simp add: mark_task_done_def session_get_in_range)

lemma mark_task_done_present:
  "sqlite_integer task_id \<Longrightarrow> stored tab task_id = Some task \<Longrightarrow>
     mark_task_done task_id tab
       = (Inr (as_read task_id (task\<lparr>done := True\<rparr>)),
          AList.update task_id (task\<lparr>done := True\<rparr>) tab)"
  by (simp add: mark_task_done_def session_get_in_range Let_def)

lemma toggle_task_overflow:
  "\<not> sqlite_integer task_id \<Longrightarrow> toggle_task task_id tab = (Inl OverflowError, tab)"
  by (simp add: toggle_task_def session_get_overflow)

lemma toggle_task_absent:
  "sqlite_integer task_id \<Longrightarrow> stored tab task_id = None \<Longrightarrow>
     toggle_task task_id tab = (Inl (HTTPException 404 detail_not_found), tab)"
  by (simp add: toggle_task_def session_get_in_range)

lemma toggle_task_present:
  "sqlite_integer task_id \<Longrightarrow> stored tab task_id = Some task \<Longrightarrow>
     toggle_task task_id tab
       = (Inr (as_read task_id (task\<lparr>done := \<not> done task\<rparr>)),
          AList.update task_id (task\<lparr>done := \<not> done task\<rparr>) tab)"
  by (simp add: toggle_task_def session_get_in_range Let_def)

lemma update_task_keys: "map fst (snd (update_task task_id p tab)) = map fst tab"
  by (cases "sqlite_integer task_id"; cases "stored tab task_id") (simp_all add: update_task_overflow update_task_absent update_task_present keys_update_present)

lemma mark_task_done_keys: "map fst (snd (mark_task_done task_id tab)) = map fst tab"
  by (cases "sqlite_integer task_id"; cases "stored tab task_id") (simp_all add: mark_task_done_overflow mark_task_done_absent mark_task_done_present keys_update_present)

lemma toggle_task_keys: "map fst (snd (toggle_task task_id tab)) = map fst tab"
  by (cases "sqlite_integer task_id"; cases "stored tab task_id") (simp_all add: toggle_task_overflow toggle_task_absent toggle_task_present keys_update_present)

subsection \<open>C3: where ids come from and how long they last\<close>

text \<open>
  C3, as amended. No update, mark-done or toggle changes an id: the keys of the table are
  the same list before and after, and the record returned carries the id of the request.
  When the body of a create carries no id, the id of the created task is the new rowid
  chosen by the storage, which no persisted task holds at that moment. Nothing is said
  about bodies that carry an id, and nothing about ids of deleted tasks.
\<close>

theorem task_id_assigned_and_stable:
  "map fst (snd (update_task task_id p tab)) = map fst tab
   \<and> map fst (snd (mark_task_done task_id tab)) = map fst tab
   \<and> map fst (snd (toggle_task task_id tab)) = map fst tab
   \<and> (\<forall>r. fst (update_task task_id p tab) = Inr r \<longrightarrow> TaskRead.id' r = task_id)
   \<and> (\<forall>r. fst (mark_task_done task_id tab) = Inr r \<longrightarrow> TaskRead.id' r = task_id)
   \<and> (\<forall>r. fst (toggle_task task_id tab) = Inr r \<longrightarrow> TaskRead.id' r = task_id)
   \<and> (Task.id' task = None \<longrightarrow>
        (\<forall>t. fst (create_task task tab) = Inr t \<longrightarrow>
           Task.id' t = Some (new_rowid tab) \<and> new_rowid tab \<notin> set (map fst tab)))"
proof -
  have "\<forall>r. fst (update_task task_id p tab) = Inr r \<longrightarrow> TaskRead.id' r = task_id"
    by (cases "sqlite_integer task_id"; cases "stored tab task_id") (auto simp: update_task_overflow update_task_absent update_task_present as_read_def)
  moreover have "\<forall>r. fst (mark_task_done task_id tab) = Inr r \<longrightarrow> TaskRead.id' r = task_id"
    by (cases "sqlite_integer task_id"; cases "stored tab task_id") (auto simp: mark_task_done_overflow mark_task_done_absent mark_task_done_present as_read_def)
  moreover have "\<forall>r. fst (toggle_task task_id tab) = Inr r \<longrightarrow> TaskRead.id' r = task_id"
    by (cases "sqlite_integer task_id"; cases "stored tab task_id") (auto simp: toggle_task_overflow toggle_task_absent toggle_task_present as_read_def)
  moreover have "Task.id' task = None \<longrightarrow>
        (\<forall>t. fst (create_task task tab) = Inr t \<longrightarrow>
           Task.id' t = Some (new_rowid tab) \<and> new_rowid tab \<notin> set (map fst tab))"
    using new_rowid_fresh [of tab]
    by (cases "select_title_first (title task) tab") (auto simp: create_task_def Let_def)
  ultimately show ?thesis
    by (simp add: update_task_keys mark_task_done_keys toggle_task_keys)
qed

theorem task_id_assigned_and_stable_witness:
  "map fst (snd (update_task 1 \<lparr>title = ''Buy bread'', done = True\<rparr>
       [(1, \<lparr>title = ''Buy milk'', done = False\<rparr>), (2, \<lparr>title = ''Call bank'', done = False\<rparr>)]))
     = [1, 2]
   \<and> fst (toggle_task 1
       [(1, \<lparr>title = ''Buy milk'', done = False\<rparr>), (2, \<lparr>title = ''Call bank'', done = False\<rparr>)])
         = Inr \<lparr>title = ''Buy milk'', done = True, TaskRead.id' = 1\<rparr>
   \<and> Task.id' \<lparr>title = ''Pay rent'', done = False, Task.id' = None\<rparr> = None
   \<and> fst (create_task \<lparr>title = ''Pay rent'', done = False, Task.id' = None\<rparr>
       [(1, \<lparr>title = ''Buy milk'', done = False\<rparr>), (2, \<lparr>title = ''Call bank'', done = False\<rparr>)])
         = Inr \<lparr>title = ''Pay rent'', done = False, Task.id' = Some 3\<rparr>"
  using task_id_assigned_and_stable
    [of 1 "\<lparr>title = ''Buy bread'', done = True\<rparr>"
        "[(1, \<lparr>title = ''Buy milk'', done = False\<rparr>), (2, \<lparr>title = ''Call bank'', done = False\<rparr>)]"
        "\<lparr>title = ''Pay rent'', done = False, Task.id' = None\<rparr>"]
  by (simp add: toggle_task_def stored_def session_get_def sqlite_integer_def as_read_def create_task_def
      select_title_first_def new_rowid_def row_of_def Let_def)

text \<open>
  C3 as stated fails on reuse: with task 1 stored, "Call bank" is created under id 2;
  after task 2 is deleted, "Pay rent" is created under id 2 again.
\<close>

theorem task_id_reuse_counterexample:
  "fst (create_task \<lparr>title = ''Call bank'', done = False, Task.id' = None\<rparr>
        [(1, \<lparr>title = ''Buy milk'', done = False\<rparr>)])
     = Inr \<lparr>title = ''Call bank'', done = False, Task.id' = Some 2\<rparr>
   \<and> fst (create_task \<lparr>title = ''Pay rent'', done = False, Task.id' = None\<rparr>
        (snd (delete_task 2
          (snd (create_task \<lparr>title = ''Call bank'', done = False, Task.id' = None\<rparr>
             [(1, \<lparr>title = ''Buy milk'', done = False\<rparr>)])))))
     = Inr \<lparr>title = ''Pay rent'', done = False, Task.id' = Some 2\<rparr>"
  by (simp add: create_task_def select_title_first_def new_rowid_def row_of_def
      delete_task_def stored_def session_get_def sqlite_integer_def)

subsection \<open>C4: update replaces both fields and checks no title\<close>

text \<open>
  C4. For every id for which \<open>session_get\<close> finds a row and every body,
  \<open>update_task\<close> returns the record with the id of the request and the title and done
  of the body, and the row \<open>session_get\<close> finds under that id afterwards is exactly the
  body. Titles are not checked: there is a
  table reached from the empty one by requests, with pairwise distinct titles, on which
  an update with a title of valid length succeeds and leaves two rows with one title.
\<close>

theorem update_task_full_replace:
  "(\<forall>task. session_get tab task_id = Inr (Some task) \<longrightarrow>
       fst (update_task task_id p tab)
         = Inr \<lparr>title = title p, done = done p, TaskRead.id' = task_id\<rparr>
     \<and> session_get (snd (update_task task_id p tab)) task_id = Inr (Some p))
   \<and> (\<exists>rqs other_id body.
         title_constraint (title body)
       \<and> distinct (map (\<lambda>row. title (snd row)) (run rqs []))
       \<and> (\<exists>r. fst (update_task other_id body (run rqs [])) = Inr r)
       \<and> \<not> distinct (map (\<lambda>row. title (snd row)) (snd (update_task other_id body (run rqs [])))))"
proof -
  have "\<forall>task. session_get tab task_id = Inr (Some task) \<longrightarrow>
       fst (update_task task_id p tab)
         = Inr \<lparr>title = title p, done = done p, TaskRead.id' = task_id\<rparr>
     \<and> session_get (snd (update_task task_id p tab)) task_id = Inr (Some p)"
    by (simp add: session_get_Inr_iff update_task_present as_read_def stored_update)
  moreover
  let ?rqs = "[POST_tasks \<lparr>title = ''Buy milk'', done = False, Task.id' = None\<rparr>,
               POST_tasks \<lparr>title = ''Call bank'', done = False, Task.id' = None\<rparr>]"
  let ?body = "\<lparr>title = ''Buy milk'', done = True\<rparr>"
  have tab: "run ?rqs [] = [(1, \<lparr>title = ''Buy milk'', done = False\<rparr>),
                            (2, \<lparr>title = ''Call bank'', done = False\<rparr>)]"
    by (simp add: respond_def create_task_def select_title_first_def new_rowid_def
        row_of_def Let_def)
  have "title_constraint (title ?body)"
    by (simp add: title_constraint_def)
  moreover have "distinct (map (\<lambda>row. title (snd row)) (run ?rqs []))"
    unfolding tab by simp
  moreover have "\<exists>r. fst (update_task 2 ?body (run ?rqs [])) = Inr r"
    unfolding tab by (simp add: update_task_def stored_def session_get_def sqlite_integer_def Let_def)
  moreover have "\<not> distinct (map (\<lambda>row. title (snd row)) (snd (update_task 2 ?body (run ?rqs []))))"
    unfolding tab by (simp add: update_task_def stored_def session_get_def sqlite_integer_def Let_def)
  ultimately show ?thesis by blast
qed

theorem update_task_full_replace_witness:
  "session_get [(1, \<lparr>title = ''Buy milk'', done = False\<rparr>)] 1
     = Inr (Some \<lparr>title = ''Buy milk'', done = False\<rparr>)
   \<and> fst (update_task 1 \<lparr>title = ''Buy bread'', done = True\<rparr>
            [(1, \<lparr>title = ''Buy milk'', done = False\<rparr>)])
       = Inr \<lparr>title = ''Buy bread'', done = True, TaskRead.id' = 1\<rparr>
   \<and> session_get (snd (update_task 1 \<lparr>title = ''Buy bread'', done = True\<rparr>
            [(1, \<lparr>title = ''Buy milk'', done = False\<rparr>)])) 1
       = Inr (Some \<lparr>title = ''Buy bread'', done = True\<rparr>)"
  using update_task_full_replace
    [of "[(1, \<lparr>title = ''Buy milk'', done = False\<rparr>)]" 1
        "\<lparr>title = ''Buy bread'', done = True\<rparr>"]
  by (simp add: stored_def session_get_def sqlite_integer_def)

subsection \<open>C5: absent ids give 404 and no write, present ids succeed\<close>

text \<open>
  C5, as amended. When \<open>task_id\<close> is in the integer range of the storage and no listed
  task has that id, each of update, delete, mark-done and toggle raises the HTTP exception
  with status 404 and returns the table as it was. When \<open>task_id\<close> is outside that range,
  each of the four fails in the lookup itself, with the storage's overflow error (a 500),
  and also returns the table as it was. When \<open>task_id\<close> is in range and a listed task has
  it, each of the four returns a result.
\<close>

theorem missing_id_not_found:
  "(sqlite_integer task_id \<and> task_id \<notin> set (map TaskRead.id' (read_tasks tab)) \<longrightarrow>
        update_task task_id p tab = (Inl (HTTPException 404 detail_not_found), tab)
      \<and> delete_task task_id tab = (Inl (HTTPException 404 detail_not_found), tab)
      \<and> mark_task_done task_id tab = (Inl (HTTPException 404 detail_not_found), tab)
      \<and> toggle_task task_id tab = (Inl (HTTPException 404 detail_not_found), tab))
   \<and> (\<not> sqlite_integer task_id \<longrightarrow>
        update_task task_id p tab = (Inl OverflowError, tab)
      \<and> delete_task task_id tab = (Inl OverflowError, tab)
      \<and> mark_task_done task_id tab = (Inl OverflowError, tab)
      \<and> toggle_task task_id tab = (Inl OverflowError, tab))
   \<and> (sqlite_integer task_id \<and> task_id \<in> set (map TaskRead.id' (read_tasks tab)) \<longrightarrow>
        (\<exists>r. fst (update_task task_id p tab) = Inr r)
      \<and> (\<exists>m. fst (delete_task task_id tab) = Inr m)
      \<and> (\<exists>r. fst (mark_task_done task_id tab) = Inr r)
      \<and> (\<exists>r. fst (toggle_task task_id tab) = Inr r))
   \<and> status_code (HTTPException 404 detail_not_found) = 404
   \<and> status_code OverflowError = 500
   \<and> (session_get tab task_id = Inr None
        \<longleftrightarrow> sqlite_integer task_id \<and> task_id \<notin> set (map TaskRead.id' (read_tasks tab)))"
proof -
  have listed: "task_id \<in> set (map TaskRead.id' (read_tasks tab)) \<longleftrightarrow> stored tab task_id \<noteq> None"
    by (simp add: read_tasks_ids stored_None_iff)
  have absent: "sqlite_integer task_id \<and> stored tab task_id = None \<longrightarrow>
        update_task task_id p tab = (Inl (HTTPException 404 detail_not_found), tab)
      \<and> delete_task task_id tab = (Inl (HTTPException 404 detail_not_found), tab)
      \<and> mark_task_done task_id tab = (Inl (HTTPException 404 detail_not_found), tab)
      \<and> toggle_task task_id tab = (Inl (HTTPException 404 detail_not_found), tab)"
    by (simp add: update_task_absent delete_task_absent mark_task_done_absent
        toggle_task_absent)
  have overflow: "\<not> sqlite_integer task_id \<longrightarrow>
        update_task task_id p tab = (Inl OverflowError, tab)
      \<and> delete_task task_id tab = (Inl OverflowError, tab)
      \<and> mark_task_done task_id tab = (Inl OverflowError, tab)
      \<and> toggle_task task_id tab = (Inl OverflowError, tab)"
    by (simp add: update_task_overflow delete_task_overflow mark_task_done_overflow
        toggle_task_overflow)
  have present: "sqlite_integer task_id \<and> stored tab task_id \<noteq> None \<longrightarrow>
        (\<exists>r. fst (update_task task_id p tab) = Inr r)
      \<and> (\<exists>m. fst (delete_task task_id tab) = Inr m)
      \<and> (\<exists>r. fst (mark_task_done task_id tab) = Inr r)
      \<and> (\<exists>r. fst (toggle_task task_id tab) = Inr r)"
    by (auto simp: update_task_present delete_task_present mark_task_done_present
        toggle_task_present)
  have lookup: "session_get tab task_id = Inr None
        \<longleftrightarrow> sqlite_integer task_id \<and> stored tab task_id = None"
    by (rule session_get_Inr_iff)
  have codes: "status_code (HTTPException 404 detail_not_found) = 404"
    "status_code OverflowError = 500"
    by simp_all
  show ?thesis
    unfolding listed not_not
    by (intro conjI absent overflow present codes lookup)
qed

theorem missing_id_not_found_witness:
  "sqlite_integer 7
   \<and> 7 \<notin> set (map TaskRead.id' (read_tasks [(1, \<lparr>title = ''Buy milk'', done = False\<rparr>)]))
   \<and> toggle_task 7 [(1, \<lparr>title = ''Buy milk'', done = False\<rparr>)]
       = (Inl (HTTPException 404 detail_not_found), [(1, \<lparr>title = ''Buy milk'', done = False\<rparr>)])
   \<and> delete_task 7 [(1, \<lparr>title = ''Buy milk'', done = False\<rparr>)]
       = (Inl (HTTPException 404 detail_not_found), [(1, \<lparr>title = ''Buy milk'', done = False\<rparr>)])
   \<and> sqlite_integer 1
   \<and> 1 \<in> set (map TaskRead.id' (read_tasks [(1, \<lparr>title = ''Buy milk'', done = False\<rparr>)]))
   \<and> (\<exists>r. fst (toggle_task 1 [(1, \<lparr>title = ''Buy milk'', done = False\<rparr>)]) = Inr r)
   \<and> (\<exists>m. fst (delete_task 1 [(1, \<lparr>title = ''Buy milk'', done = False\<rparr>)]) = Inr m)
   \<and> \<not> sqlite_integer 9223372036854775808
   \<and> update_task 9223372036854775808 \<lparr>title = ''Buy bread'', done = True\<rparr>
        [(1, \<lparr>title = ''Buy milk'', done = False\<rparr>)]
       = (Inl OverflowError, [(1, \<lparr>title = ''Buy milk'', done = False\<rparr>)])"
  using missing_id_not_found
    [of 7 "[(1, \<lparr>title = ''Buy milk'', done = False\<rparr>)]" "\<lparr>title = ''Buy bread'', done = True\<rparr>"]
    missing_id_not_found
    [of 1 "[(1, \<lparr>title = ''Buy milk'', done = False\<rparr>)]" "\<lparr>title = ''Buy bread'', done = True\<rparr>"]
    missing_id_not_found
    [of 9223372036854775808 "[(1, \<lparr>title = ''Buy milk'', done = False\<rparr>)]"
        "\<lparr>title = ''Buy bread'', done = True\<rparr>"]
  by (simp add: sqlite_integer_def read_tasks_def as_read_def)

text \<open>
  C5 as stated fails outside the integer range of the storage: 2 to the power 63 is the
  id of no task of the empty table, and mark-done, toggle, delete and update on it do not
  answer 404 but fail with the overflow error, a 500.
\<close>

theorem missing_id_overflow_counterexample:
  "read_tasks [] = []
   \<and> fst (mark_task_done 9223372036854775808 []) = Inl OverflowError
   \<and> fst (toggle_task 9223372036854775808 []) = Inl OverflowError
   \<and> fst (delete_task 9223372036854775808 []) = Inl OverflowError
   \<and> fst (update_task 9223372036854775808 \<lparr>title = ''Buy bread'', done = True\<rparr> [])
       = Inl OverflowError
   \<and> status_code OverflowError \<noteq> 404"
  by (simp add: read_tasks_def mark_task_done_def toggle_task_def delete_task_def
      update_task_def session_get_def sqlite_integer_def)

subsection \<open>C6: toggle twice, mark done twice\<close>

text \<open>
  C6. For a task that \<open>session_get\<close> finds, the first toggle returns it with \<open>done\<close> negated, the second
  returns it with the original \<open>done\<close>, and the table after the two toggles is the table
  before them. Mark-done returns the task with \<open>done = True\<close> and stores it so; a second
  mark-done returns the same record and leaves the table of the first one unchanged.
\<close>

theorem toggle_involution_mark_done_idempotent:
  assumes "session_get tab task_id = Inr (Some task)"
  shows "fst (toggle_task task_id tab) = Inr (as_read task_id (task\<lparr>done := \<not> done task\<rparr>))
   \<and> fst (toggle_task task_id (snd (toggle_task task_id tab))) = Inr (as_read task_id task)
   \<and> snd (toggle_task task_id (snd (toggle_task task_id tab))) = tab
   \<and> fst (mark_task_done task_id tab) = Inr (as_read task_id (task\<lparr>done := True\<rparr>))
   \<and> session_get (snd (mark_task_done task_id tab)) task_id = Inr (Some (task\<lparr>done := True\<rparr>))
   \<and> fst (mark_task_done task_id (snd (mark_task_done task_id tab)))
       = Inr (as_read task_id (task\<lparr>done := True\<rparr>))
   \<and> snd (mark_task_done task_id (snd (mark_task_done task_id tab)))
       = snd (mark_task_done task_id tab)"
proof -
  let ?flipped = "task\<lparr>done := \<not> done task\<rparr>"
  let ?marked = "task\<lparr>done := True\<rparr>"
  from assms have range: "sqlite_integer task_id" and row: "stored tab task_id = Some task"
    by (simp_all add: session_get_Inr_iff)
  have t1: "toggle_task task_id tab
      = (Inr (as_read task_id ?flipped), AList.update task_id ?flipped tab)"
    using range row by (rule toggle_task_present)
  have g1: "stored (AList.update task_id ?flipped tab) task_id = Some ?flipped"
    by (simp add: stored_update)
  have restored: "?flipped\<lparr>done := \<not> done ?flipped\<rparr> = task"
    by simp
  have same: "AList.update task_id task tab = tab"
    using row by (simp add: stored_def update_triv)
  have t2: "toggle_task task_id (AList.update task_id ?flipped tab)
      = (Inr (as_read task_id task), tab)"
    using toggle_task_present [OF range g1] by (simp only: restored update_last same)
  have m1: "mark_task_done task_id tab
      = (Inr (as_read task_id ?marked), AList.update task_id ?marked tab)"
    using range row by (rule mark_task_done_present)
  have g2: "stored (AList.update task_id ?marked tab) task_id = Some ?marked"
    by (simp add: stored_update)
  have again: "?marked\<lparr>done := True\<rparr> = ?marked"
    by simp
  have m2: "mark_task_done task_id (AList.update task_id ?marked tab)
      = (Inr (as_read task_id ?marked), AList.update task_id ?marked tab)"
    using mark_task_done_present [OF range g2] by (simp only: again update_last)
  have g3: "session_get (AList.update task_id ?marked tab) task_id = Inr (Some ?marked)"
    using range g2 by (simp add: session_get_Inr_iff)
  show ?thesis
    by (simp add: t1 t2 m1 m2 g3)
qed

theorem toggle_involution_mark_done_idempotent_witness:
  "fst (toggle_task 1 [(1, \<lparr>title = ''Buy milk'', done = False\<rparr>)])
     = Inr \<lparr>title = ''Buy milk'', done = True, TaskRead.id' = 1\<rparr>
   \<and> toggle_task 1 (snd (toggle_task 1 [(1, \<lparr>title = ''Buy milk'', done = False\<rparr>)]))
     = (Inr \<lparr>title = ''Buy milk'', done = False, TaskRead.id' = 1\<rparr>,
        [(1, \<lparr>title = ''Buy milk'', done = False\<rparr>)])
   \<and> mark_task_done 1 (snd (mark_task_done 1 [(1, \<lparr>title = ''Buy milk'', done = False\<rparr>)]))
     = (Inr \<lparr>title = ''Buy milk'', done = True, TaskRead.id' = 1\<rparr>,
        [(1, \<lparr>title = ''Buy milk'', done = True\<rparr>)])"
  using toggle_involution_mark_done_idempotent
    [of "[(1, \<lparr>title = ''Buy milk'', done = False\<rparr>)]" 1 "\<lparr>title = ''Buy milk'', done = False\<rparr>"]
  by (simp add: stored_def session_get_def sqlite_integer_def as_read_def toggle_task_def mark_task_done_def Let_def)

lemma others_update:
  "filter (\<lambda>row. fst row \<noteq> k) (AList.update k v tab) = filter (\<lambda>row. fst row \<noteq> k) tab"
  by (induction tab) auto

lemma others_delete:
  "filter (\<lambda>row. fst row \<noteq> k) (AList.delete k tab) = filter (\<lambda>row. fst row \<noteq> k) tab"
  by (induction tab) auto


lemma read_tasks_others:
  "filter (\<lambda>r. TaskRead.id' r \<noteq> k) (read_tasks tab)
     = read_tasks (filter (\<lambda>row. fst row \<noteq> k) tab)"
  by (induction tab) (simp_all add: read_tasks_def as_read_def)

lemma update_task_others:
  "filter (\<lambda>row. fst row \<noteq> task_id) (snd (update_task task_id p tab))
     = filter (\<lambda>row. fst row \<noteq> task_id) tab"
  by (cases "sqlite_integer task_id"; cases "stored tab task_id")
    (simp_all add: update_task_overflow update_task_absent update_task_present others_update)

lemma delete_task_others:
  "filter (\<lambda>row. fst row \<noteq> task_id) (snd (delete_task task_id tab))
     = filter (\<lambda>row. fst row \<noteq> task_id) tab"
  by (cases "sqlite_integer task_id"; cases "stored tab task_id")
    (simp_all add: delete_task_overflow delete_task_absent delete_task_present others_delete)

lemma mark_task_done_others:
  "filter (\<lambda>row. fst row \<noteq> task_id) (snd (mark_task_done task_id tab))
     = filter (\<lambda>row. fst row \<noteq> task_id) tab"
  by (cases "sqlite_integer task_id"; cases "stored tab task_id")
    (simp_all add: mark_task_done_overflow mark_task_done_absent mark_task_done_present others_update)

lemma toggle_task_others:
  "filter (\<lambda>row. fst row \<noteq> task_id) (snd (toggle_task task_id tab))
     = filter (\<lambda>row. fst row \<noteq> task_id) tab"
  by (cases "sqlite_integer task_id"; cases "stored tab task_id")
    (simp_all add: toggle_task_overflow toggle_task_absent toggle_task_present others_update)

lemma create_task_table:
  "snd (create_task task tab) = tab \<or> (\<exists>i. i \<notin> set (map fst tab) \<and> snd (create_task task tab) = tab @ [(i, row_of task)])"
proof (cases "select_title_first (title task) tab")
  case (Some row)
  then show ?thesis by (simp add: create_task_def)
next
  case None
  show ?thesis
  proof (cases "Task.id' task")
    case absent: None
    have "snd (create_task task tab) = tab @ [(new_rowid tab, row_of task)]"
      using None absent by (simp add: create_task_def Let_def)
    then show ?thesis using new_rowid_fresh [of tab] by blast
  next
    case (Some i)
    then show ?thesis using None by (auto simp: create_task_def)
  qed
qed

lemma stored_append_fresh:
  "i \<notin> set (map fst tab) \<Longrightarrow>
     stored (tab @ [(i, r)]) j = (if j = i then Some r else stored tab j)"
proof -
  assume "i \<notin> set (map fst tab)"
  then have none: "map_of tab i = None" by (simp add: map_of_eq_None_iff)
  show ?thesis
  proof (cases "j = i")
    case True
    then show ?thesis using none by (simp add: stored_def session_get_def sqlite_integer_def map_add_def)
  next
    case False
    then show ?thesis by (simp add: stored_def session_get_def sqlite_integer_def map_add_def split: option.split)
  qed
qed

subsection \<open>C10: every operation writes at most the task it names\<close>

text \<open>
  C10. The listed tasks whose id differs from \<open>task_id\<close> are the same list before and
  after update, delete, mark-done and toggle, and so is the row found under every other
  key. Mark-done and toggle keep the title stored under \<open>task_id\<close> and the ids of the
  listing. After a create, every task listed before is still listed, and every key that
  had a row still has that row.
\<close>

theorem operations_touch_one_task:
  "filter (\<lambda>r. TaskRead.id' r \<noteq> task_id) (read_tasks (snd (update_task task_id p tab)))
      = filter (\<lambda>r. TaskRead.id' r \<noteq> task_id) (read_tasks tab)
   \<and> filter (\<lambda>r. TaskRead.id' r \<noteq> task_id) (read_tasks (snd (delete_task task_id tab)))
      = filter (\<lambda>r. TaskRead.id' r \<noteq> task_id) (read_tasks tab)
   \<and> filter (\<lambda>r. TaskRead.id' r \<noteq> task_id) (read_tasks (snd (mark_task_done task_id tab)))
      = filter (\<lambda>r. TaskRead.id' r \<noteq> task_id) (read_tasks tab)
   \<and> filter (\<lambda>r. TaskRead.id' r \<noteq> task_id) (read_tasks (snd (toggle_task task_id tab)))
      = filter (\<lambda>r. TaskRead.id' r \<noteq> task_id) (read_tasks tab)
   \<and> (\<forall>j. j \<noteq> task_id \<longrightarrow>
          stored (snd (update_task task_id p tab)) j = stored tab j
        \<and> stored (snd (delete_task task_id tab)) j = stored tab j
        \<and> stored (snd (mark_task_done task_id tab)) j = stored tab j
        \<and> stored (snd (toggle_task task_id tab)) j = stored tab j)
   \<and> map_option title (stored (snd (mark_task_done task_id tab)) task_id)
      = map_option title (stored tab task_id)
   \<and> map_option title (stored (snd (toggle_task task_id tab)) task_id)
      = map_option title (stored tab task_id)
   \<and> map TaskRead.id' (read_tasks (snd (mark_task_done task_id tab))) = map TaskRead.id' (read_tasks tab)
   \<and> map TaskRead.id' (read_tasks (snd (toggle_task task_id tab))) = map TaskRead.id' (read_tasks tab)
   \<and> set (read_tasks tab) \<subseteq> set (read_tasks (snd (create_task task tab)))
   \<and> (\<forall>j r. stored tab j = Some r \<longrightarrow> stored (snd (create_task task tab)) j = Some r)"
proof -
  have others: "filter (\<lambda>r. TaskRead.id' r \<noteq> task_id) (read_tasks (snd (update_task task_id p tab)))
      = filter (\<lambda>r. TaskRead.id' r \<noteq> task_id) (read_tasks tab)"
    "filter (\<lambda>r. TaskRead.id' r \<noteq> task_id) (read_tasks (snd (delete_task task_id tab)))
      = filter (\<lambda>r. TaskRead.id' r \<noteq> task_id) (read_tasks tab)"
    "filter (\<lambda>r. TaskRead.id' r \<noteq> task_id) (read_tasks (snd (mark_task_done task_id tab)))
      = filter (\<lambda>r. TaskRead.id' r \<noteq> task_id) (read_tasks tab)"
    "filter (\<lambda>r. TaskRead.id' r \<noteq> task_id) (read_tasks (snd (toggle_task task_id tab)))
      = filter (\<lambda>r. TaskRead.id' r \<noteq> task_id) (read_tasks tab)"
    by (simp_all only: read_tasks_others update_task_others delete_task_others
        mark_task_done_others toggle_task_others)
  have lookups: "\<forall>j. j \<noteq> task_id \<longrightarrow>
          stored (snd (update_task task_id p tab)) j = stored tab j
        \<and> stored (snd (delete_task task_id tab)) j = stored tab j
        \<and> stored (snd (mark_task_done task_id tab)) j = stored tab j
        \<and> stored (snd (toggle_task task_id tab)) j = stored tab j"
    by (cases "sqlite_integer task_id"; cases "stored tab task_id")
      (simp_all add: update_task_overflow update_task_absent update_task_present delete_task_overflow delete_task_absent
        delete_task_present mark_task_done_overflow mark_task_done_absent mark_task_done_present
        toggle_task_overflow toggle_task_absent toggle_task_present stored_update stored_delete)
  have titles: "map_option title (stored (snd (mark_task_done task_id tab)) task_id)
      = map_option title (stored tab task_id)"
    "map_option title (stored (snd (toggle_task task_id tab)) task_id)
      = map_option title (stored tab task_id)"
    by (cases "sqlite_integer task_id"; cases "stored tab task_id";
        simp add: mark_task_done_overflow mark_task_done_absent mark_task_done_present
          toggle_task_overflow toggle_task_absent toggle_task_present stored_update)+
  have ids: "map TaskRead.id' (read_tasks (snd (mark_task_done task_id tab))) = map TaskRead.id' (read_tasks tab)"
    "map TaskRead.id' (read_tasks (snd (toggle_task task_id tab))) = map TaskRead.id' (read_tasks tab)"
    by (simp_all only: read_tasks_ids mark_task_done_keys toggle_task_keys)
  have listed: "set (read_tasks tab) \<subseteq> set (read_tasks (snd (create_task task tab)))"
    using create_task_table [of task tab] by (auto simp: read_tasks_def)
  have kept: "\<forall>j r. stored tab j = Some r \<longrightarrow> stored (snd (create_task task tab)) j = Some r"
  proof (intro allI impI)
    fix j r assume present: "stored tab j = Some r"
    then have "j \<in> set (map fst tab)"
      using stored_None_iff [of tab j] by auto
    from create_task_table [of task tab]
    show "stored (snd (create_task task tab)) j = Some r"
    proof
      assume "snd (create_task task tab) = tab"
      with present show ?thesis by simp
    next
      assume "\<exists>i. i \<notin> set (map fst tab) \<and> snd (create_task task tab) = tab @ [(i, row_of task)]"
      then obtain i where fresh: "i \<notin> set (map fst tab)"
        and grown: "snd (create_task task tab) = tab @ [(i, row_of task)]"
        by blast
      from fresh \<open>j \<in> set (map fst tab)\<close> have "j \<noteq> i" by blast
      with fresh grown present show ?thesis
        by (simp add: stored_append_fresh)
    qed
  qed
  from others lookups titles ids listed kept show ?thesis by blast
qed

theorem operations_touch_one_task_witness:
  "(2::int) \<noteq> 1
   \<and> stored (snd (update_task 1 \<lparr>title = ''Buy bread'', done = True\<rparr>
        [(1, \<lparr>title = ''Buy milk'', done = False\<rparr>), (2, \<lparr>title = ''Call bank'', done = False\<rparr>)])) 2
      = Some \<lparr>title = ''Call bank'', done = False\<rparr>
   \<and> stored (snd (delete_task 1
        [(1, \<lparr>title = ''Buy milk'', done = False\<rparr>), (2, \<lparr>title = ''Call bank'', done = False\<rparr>)])) 2
      = Some \<lparr>title = ''Call bank'', done = False\<rparr>
   \<and> stored (snd (create_task \<lparr>title = ''Pay rent'', done = False, Task.id' = None\<rparr>
        [(1, \<lparr>title = ''Buy milk'', done = False\<rparr>), (2, \<lparr>title = ''Call bank'', done = False\<rparr>)])) 2
      = Some \<lparr>title = ''Call bank'', done = False\<rparr>
   \<and> read_tasks (snd (toggle_task 1
        [(1, \<lparr>title = ''Buy milk'', done = False\<rparr>), (2, \<lparr>title = ''Call bank'', done = False\<rparr>)]))
      = [\<lparr>title = ''Buy milk'', done = True, TaskRead.id' = 1\<rparr>,
         \<lparr>title = ''Call bank'', done = False, TaskRead.id' = 2\<rparr>]"
  using operations_touch_one_task
    [of 1 "\<lparr>title = ''Buy bread'', done = True\<rparr>"
        "[(1, \<lparr>title = ''Buy milk'', done = False\<rparr>), (2, \<lparr>title = ''Call bank'', done = False\<rparr>)]"
        "\<lparr>title = ''Pay rent'', done = False, Task.id' = None\<rparr>"]
  by (simp add: stored_def session_get_def sqlite_integer_def read_tasks_def as_read_def toggle_task_def Let_def)




subsection \<open>C9: delete removes the row and names the id\<close>








subsection \<open>C7: the listing is what was created, last written and not deleted\<close>



end
